theory Spec2Isabelle
  imports Main "HOL-Library.AList"
begin

section \<open>Errors and the platform\<close>

text \<open>
  The exceptions that can leave the functions of \<^verbatim>\<open>sandboxie.py\<close>: \<^verbatim>\<open>ValueError\<close> (from
  \<^verbatim>\<open>int\<close> and from the interpolation check of \<^verbatim>\<open>configparser\<close>), the launcher's
  \<^verbatim>\<open>CalledProcessError\<close> and \<^verbatim>\<open>WindowsError\<close>, the parser's \<^verbatim>\<open>ParsingError\<close> and
  \<^verbatim>\<open>NoSectionError\<close>, and whatever exception a caller's \<^verbatim>\<open>with\<close> block raises.
\<close>

datatype error =
    ValueError
  | CalledProcessError
  | WindowsError
  | ParsingError
  | NoSectionError
  | DuplicateSectionError
  | BlockError string

text \<open>
  A parsed \<^verbatim>\<open>configparser.ConfigParser\<close>: the \<^verbatim>\<open>DEFAULT\<close> section and the ordered
  dictionary of named sections, each an ordered dictionary from option name to value.
\<close>

type_synonym option_dict = "(string \<times> string) list"

record config =
  defaults_dict :: option_dict
  sections :: "(string \<times> option_dict) list"

text \<open>
  What the module takes from outside itself: \<^verbatim>\<open>os.path.join\<close>, the launcher behind
  \<^verbatim>\<open>subprocess.check_output\<close> (\<^verbatim>\<open>_shell_output\<close>), and the reader and writer of
  \<^verbatim>\<open>configparser\<close> over the content \<open>'f\<close> of the file \<^verbatim>\<open>Sandboxie.ini\<close>
  (its UTF-16 text). Opening the located file is taken to succeed.
\<close>

record 'f platform =
  path_join :: "string \<Rightarrow> string \<Rightarrow> string"
  shell_output :: "string list \<Rightarrow> error + string"
  config_read_file :: "'f \<Rightarrow> error + config"
  config_write :: "config \<Rightarrow> 'f"

text \<open>The object built by \<^verbatim>\<open>Sandboxie.__init__\<close>.\<close>

record sandboxie =
  install_dir :: string
  defaultbox :: string

section \<open>The launcher command line: \<^verbatim>\<open>Sandboxie.start\<close>\<close>

text \<open>The parameters of \<^verbatim>\<open>start\<close>, and their default values.\<close>

record start_kwargs =
  command :: "string option"
  box :: "string option"
  silent :: bool
  wait :: bool
  nosbiectrl :: bool
  elevate :: bool
  disable_forced :: bool
  reload :: bool
  terminate :: bool
  terminate_all :: bool
  listpids :: bool

definition start_defaults :: start_kwargs where
  "start_defaults =
     \<lparr>command = None, box = None, silent = True, wait = False, nosbiectrl = True,
      elevate = False, disable_forced = False, reload = False, terminate = False,
      terminate_all = False, listpids = False\<rparr>"

text \<open>
  The list \<^verbatim>\<open>[start_exe] + options + [command]\<close> that \<^verbatim>\<open>start\<close> hands to
  \<^verbatim>\<open>_shell_output\<close>. The control flags are appended only under \<^verbatim>\<open>command is None\<close>;
  \<^verbatim>\<open>'| more'\<close> replaces the absent command only under \<^verbatim>\<open>listpids\<close>; \<^verbatim>\<open>command or ''\<close>
  turns \<^verbatim>\<open>None\<close> (and the empty string) into the empty string.
\<close>

definition start_command_line :: "'f platform \<Rightarrow> sandboxie \<Rightarrow> start_kwargs \<Rightarrow> string list" where
  "start_command_line env self kw =
     (let box1 = (case box kw of None \<Rightarrow> defaultbox self | Some b \<Rightarrow> b);
          options = [''/box:'' @ box1]
            @ (if silent kw then [''/silent''] else [])
            @ (if wait kw then [''/wait''] else [])
            @ (if nosbiectrl kw then [''/nosbiectrl''] else [])
            @ (if elevate kw then [''/elevate''] else [])
            @ (if disable_forced kw then [''/dfp''] else []);
          options1 = (case command kw of
              None \<Rightarrow> options
                @ (if reload kw then [''/reload''] else [])
                @ (if terminate kw then [''/terminate''] else [])
                @ (if terminate_all kw then [''/terminate_all''] else [])
                @ (if listpids kw then [''/listpids''] else [])
            | Some c \<Rightarrow> options);
          command1 = (case command kw of
              None \<Rightarrow> (if listpids kw then Some ''| more'' else None)
            | Some c \<Rightarrow> Some c);
          start_exe = path_join env (install_dir self) ''Start.exe'';
          command2 = (case command1 of None \<Rightarrow> [] | Some c \<Rightarrow> (if c = [] then [] else c))
      in [start_exe] @ options1 @ [command2])"

definition start :: "'f platform \<Rightarrow> sandboxie \<Rightarrow> start_kwargs \<Rightarrow> error + string" where
  "start env self kw = shell_output env (start_command_line env self kw)"

text \<open>
  The wrappers. Each passes its keyword arguments on to \<^verbatim>\<open>start\<close> and fixes some of
  them; \<open>kw\<close> holds the values of the keywords the wrapper does not fix.
\<close>

definition reload_config :: "'f platform \<Rightarrow> sandboxie \<Rightarrow> start_kwargs \<Rightarrow> error + string" where
  "reload_config env self kw = start env self (kw\<lparr>reload := True\<rparr>)"

definition delete_contents ::
  "'f platform \<Rightarrow> sandboxie \<Rightarrow> string option \<Rightarrow> start_kwargs \<Rightarrow> error + string" where
  "delete_contents env self b kw =
     start env self (kw\<lparr>command := Some ''delete_sandbox_silent'', box := None\<rparr>)"

definition terminate_processes ::
  "'f platform \<Rightarrow> sandboxie \<Rightarrow> string option \<Rightarrow> start_kwargs \<Rightarrow> error + string" where
  "terminate_processes env self b kw = start env self (kw\<lparr>terminate := True, box := b\<rparr>)"

definition terminate_all_processes :: "'f platform \<Rightarrow> sandboxie \<Rightarrow> start_kwargs \<Rightarrow> error + string" where
  "terminate_all_processes env self kw = start env self (kw\<lparr>terminate_all := True\<rparr>)"

text \<open>The four control tokens of the launcher.\<close>

definition control_tokens :: "string set" where
  "control_tokens = {''/reload'', ''/terminate'', ''/terminate_all'', ''/listpids''}"

section \<open>Process identifiers: \<^verbatim>\<open>Sandboxie.running_processes\<close>\<close>

text \<open>
  The launcher's output is a byte string. \<^verbatim>\<open>split()\<close> without arguments cuts it at runs of
  ASCII whitespace (space, tab, line feed, carriage return, vertical tab, form feed) and
  returns no empty token.
\<close>

definition is_space :: "char \<Rightarrow> bool" where
  "is_space c = (c \<in> set [CHR 0x20, CHR 0x09, CHR 0x0A, CHR 0x0D, CHR 0x0B, CHR 0x0C])"

fun split_from :: "string \<Rightarrow> string \<Rightarrow> string list" where
  "split_from cur [] = (if cur = [] then [] else [cur])"
| "split_from cur (c # s) =
     (if is_space c then (if cur = [] then split_from [] s else cur # split_from [] s)
      else split_from (cur @ [c]) s)"

definition split :: "string \<Rightarrow> string list" where
  "split s = split_from [] s"

text \<open>
  \<^verbatim>\<open>int(pid)\<close> in base ten on a token without whitespace: an optional sign, then decimal
  digits, with single underscores allowed between digits (Python 3.6 and later; Python
  2.7 rejects them). \<open>None\<close> stands for the \<^verbatim>\<open>ValueError\<close> that \<^verbatim>\<open>int\<close> raises.
\<close>

definition is_digit :: "char \<Rightarrow> bool" where
  "is_digit c = (48 \<le> (of_char c :: nat) \<and> (of_char c :: nat) \<le> 57)"

definition digit_val :: "char \<Rightarrow> int" where
  "digit_val c = int (of_char c) - 48"

fun digits_value :: "int \<Rightarrow> bool \<Rightarrow> string \<Rightarrow> int option" where
  "digits_value acc prev [] = (if prev then Some acc else None)"
| "digits_value acc prev (c # s) =
     (if is_digit c then digits_value (10 * acc + digit_val c) True s
      else if c = CHR ''_'' \<and> prev then digits_value acc False s
      else None)"

definition py_int :: "string \<Rightarrow> int option" where
  "py_int s =
     (case s of
        [] \<Rightarrow> None
      | c # r \<Rightarrow>
          if c = CHR ''-'' then map_option uminus (digits_value 0 False r)
          else if c = CHR ''+'' then digits_value 0 False r
          else digits_value 0 False s)"

text \<open>
  The generator \<^verbatim>\<open>(int(pid) for pid in output.split())\<close>: the split is done when the
  generator is made, each \<^verbatim>\<open>int\<close> when its element is asked for. Its state is the list of
  tokens still to convert. \<open>gen_next\<close> is one \<^verbatim>\<open>next()\<close>: \<open>None\<close> is \<^verbatim>\<open>StopIteration\<close>;
  after an exception a generator is finished. \<open>py_tuple\<close> is \<^verbatim>\<open>tuple(generator)\<close>.
\<close>

type_synonym pid_generator = "string list"

fun gen_next :: "pid_generator \<Rightarrow> ((error + int) \<times> pid_generator) option" where
  "gen_next [] = None"
| "gen_next (t # ts) =
     (case py_int t of None \<Rightarrow> Some (Inl ValueError, []) | Some n \<Rightarrow> Some (Inr n, ts))"

function py_tuple :: "pid_generator \<Rightarrow> error + int list" where
  "py_tuple g =
     (case gen_next g of
        None \<Rightarrow> Inr []
      | Some (Inl e, g') \<Rightarrow> Inl e
      | Some (Inr n, g') \<Rightarrow> (case py_tuple g' of Inl e \<Rightarrow> Inl e | Inr ns \<Rightarrow> Inr (n # ns)))"
  by pat_completeness auto
termination
  by (relation "measure length") (auto split: option.splits list.splits elim!: gen_next.elims)

definition running_processes ::
  "'f platform \<Rightarrow> sandboxie \<Rightarrow> string option \<Rightarrow> start_kwargs \<Rightarrow> error + pid_generator" where
  "running_processes env self b kw =
     (case start env self (kw\<lparr>listpids := True, box := b, wait := True\<rparr>) of
        Inl e \<Rightarrow> Inl e
      | Inr output \<Rightarrow> Inr (split output))"

text \<open>Consuming the result of \<^verbatim>\<open>running_processes\<close> with \<^verbatim>\<open>tuple\<close>.\<close>

definition consumed :: "error + pid_generator \<Rightarrow> error + int list" where
  "consumed r = (case r of Inl e \<Rightarrow> Inl e | Inr g \<Rightarrow> py_tuple g)"

section \<open>The configuration: \<^verbatim>\<open>configparser.ConfigParser(strict=False)\<close>\<close>

text \<open>
  The operations of the parser object that \<^verbatim>\<open>create_sandbox\<close> and \<^verbatim>\<open>destroy_sandbox\<close>
  use. Option names go through \<^verbatim>\<open>optionxform\<close>, which is \<^verbatim>\<open>str.lower\<close>. A \<open>string\<close> holds
  code points below 256; there \<^verbatim>\<open>str.lower\<close> moves the letters \<^verbatim>\<open>A\<close> to \<^verbatim>\<open>Z\<close> and the
  code points 192 to 222 other than 215 up by 32 and leaves every other code point alone.
\<close>

definition default_section :: string where
  "default_section = ''DEFAULT''"

definition is_upper :: "char \<Rightarrow> bool" where
  "is_upper c =
     ((65 \<le> (of_char c :: nat) \<and> (of_char c :: nat) \<le> 90) \<or>
      (192 \<le> (of_char c :: nat) \<and> (of_char c :: nat) \<le> 214) \<or>
      (216 \<le> (of_char c :: nat) \<and> (of_char c :: nat) \<le> 222))"

definition lower_char :: "char \<Rightarrow> char" where
  "lower_char c = (if is_upper c then char_of ((of_char c :: nat) + 32) else c)"

definition optionxform :: "string \<Rightarrow> string" where
  "optionxform optionstr = map lower_char optionstr"

text \<open>
  \<^verbatim>\<open>BasicInterpolation.before_set\<close>, the check \<^verbatim>\<open>ConfigParser.set\<close> makes on a non-empty
  value: after \<^verbatim>\<open>value.replace('%%', '')\<close> and after deleting every match of the regular
  expression \<^verbatim>\<open>%\(([^)]+)\)s\<close>, no \<^verbatim>\<open>%\<close> may be left, or \<^verbatim>\<open>ValueError\<close> is raised.
\<close>

fun remove_escaped :: "string \<Rightarrow> string" where
  "remove_escaped (a # b # s) =
     (if a = CHR ''%'' \<and> b = CHR ''%'' then remove_escaped s else a # remove_escaped (b # s))"
| "remove_escaped s = s"

text \<open>
  A match of \<^verbatim>\<open>\(([^)]+)\)s\<close> at the head of \<open>s\<close> (the text after a \<^verbatim>\<open>%\<close>), giving the text
  after the match.
\<close>

definition match_key :: "string \<Rightarrow> string option" where
  "match_key s =
     (case s of
        [] \<Rightarrow> None
      | c # r \<Rightarrow>
          if c \<noteq> CHR ''('' then None
          else if takeWhile (\<lambda>x. x \<noteq> CHR '')'') r = [] then None
          else (case dropWhile (\<lambda>x. x \<noteq> CHR '')'') r of
                  a # b # t \<Rightarrow> if b = CHR ''s'' then Some t else None
                | _ \<Rightarrow> None))"

function remove_keys :: "string \<Rightarrow> string" where
  "remove_keys [] = []"
| "remove_keys (c # s) =
     (if c = CHR ''%'' then
        (case match_key s of Some rest \<Rightarrow> remove_keys rest | None \<Rightarrow> c # remove_keys s)
      else c # remove_keys s)"
  by pat_completeness auto
termination
proof -
  have shorter: "length t < length s" if m: "match_key s = Some t" for s t
  proof -
    from m obtain c r where s: "s = c # r"
      by (cases s) (auto simp: match_key_def)
    from m s obtain a b where d: "dropWhile (\<lambda>x. x \<noteq> CHR '')'') r = a # b # t"
      by (auto simp: match_key_def split: if_splits list.splits)
    have "length (dropWhile (\<lambda>x. x \<noteq> CHR '')'') r) \<le> length r"
      by (rule length_dropWhile_le)
    with d s show ?thesis by simp
  qed
  show ?thesis
    by (relation "measure length") (auto dest: shorter)
qed

definition before_set :: "string \<Rightarrow> error + string" where
  "before_set v =
     (if CHR ''%'' \<in> set (remove_keys (remove_escaped v)) then Inl ValueError else Inr v)"

definition has_section :: "config \<Rightarrow> string \<Rightarrow> bool" where
  "has_section c name = (name \<in> set (map fst (sections c)))"

text \<open>\<^verbatim>\<open>RawConfigParser.add_section\<close>.\<close>

definition add_section :: "config \<Rightarrow> string \<Rightarrow> error + config" where
  "add_section c name =
     (if name = default_section then Inl ValueError
      else if has_section c name then Inl DuplicateSectionError
      else Inr (c\<lparr>sections := sections c @ [(name, [])]\<rparr>))"

text \<open>
  \<^verbatim>\<open>ConfigParser.set\<close>: the interpolation check \<^verbatim>\<open>if value:\<close>, then the store into the
  \<^verbatim>\<open>DEFAULT\<close> dictionary when the section name is empty or \<^verbatim>\<open>DEFAULT\<close>, into the named
  section otherwise.
\<close>

definition set_option :: "config \<Rightarrow> string \<Rightarrow> string \<Rightarrow> string \<Rightarrow> error + config" where
  "set_option c name opt v =
     (case (if v \<noteq> [] then before_set v else Inr v) of
        Inl e \<Rightarrow> Inl e
      | Inr v1 \<Rightarrow>
          if name = [] \<or> name = default_section
          then Inr (c\<lparr>defaults_dict := AList.update (optionxform opt) v1 (defaults_dict c)\<rparr>)
          else (case map_of (sections c) name of
                  None \<Rightarrow> Inl NoSectionError
                | Some d \<Rightarrow>
                    Inr (c\<lparr>sections :=
                          AList.update name (AList.update (optionxform opt) v1 d) (sections c)\<rparr>)))"

text \<open>
  \<^verbatim>\<open>read_dict({name: options})\<close> of a non-strict parser: \<^verbatim>\<open>add_section\<close> with its
  \<^verbatim>\<open>DuplicateSectionError\<close> and \<^verbatim>\<open>ValueError\<close> swallowed, then one \<^verbatim>\<open>set\<close> per item, in the
  order of the dictionary.
\<close>

fun set_items :: "config \<Rightarrow> string \<Rightarrow> (string \<times> string) list \<Rightarrow> error + config" where
  "set_items c name [] = Inr c"
| "set_items c name ((k, v) # kvs) =
     (case set_option c name (optionxform k) v of
        Inl e \<Rightarrow> Inl e
      | Inr c1 \<Rightarrow> set_items c1 name kvs)"

definition read_dict :: "config \<Rightarrow> string \<Rightarrow> (string \<times> string) list \<Rightarrow> error + config" where
  "read_dict c name options =
     set_items (case add_section c name of Inl e \<Rightarrow> c | Inr c1 \<Rightarrow> c1) name options"

text \<open>
  \<^verbatim>\<open>config[key] = value\<close> (\<^verbatim>\<open>RawConfigParser.__setitem__\<close>) for a plain dictionary \<open>value\<close>:
  the named dictionary is cleared, then \<^verbatim>\<open>read_dict\<close> fills it.
\<close>

definition setitem :: "config \<Rightarrow> string \<Rightarrow> (string \<times> string) list \<Rightarrow> error + config" where
  "setitem c key v =
     read_dict
       (if key = default_section then c\<lparr>defaults_dict := []\<rparr>
        else if has_section c key then c\<lparr>sections := AList.update key [] (sections c)\<rparr>
        else c)
       key v"

text \<open>\<^verbatim>\<open>RawConfigParser.remove_section\<close>: no error when the section is absent.\<close>

definition remove_section :: "config \<Rightarrow> string \<Rightarrow> config" where
  "remove_section c name =
     (if has_section c name then c\<lparr>sections := AList.delete name (sections c)\<rparr> else c)"


section \<open>The configuration file\<close>

text \<open>
  The state is the content \<open>f\<close> of \<^verbatim>\<open>Sandboxie.ini\<close>. \<^verbatim>\<open>_modify_config\<close> is a generator-based
  context manager with no \<^verbatim>\<open>try\<close> around its \<^verbatim>\<open>yield\<close>: an exception of the \<^verbatim>\<open>with\<close> block
  \<open>blk\<close> leaves through the \<^verbatim>\<open>yield\<close> and \<^verbatim>\<open>_write_config\<close> is not reached. The block works
  on the parser object in place; its result is the object as the block left it.
\<close>

definition get_config :: "'f platform \<Rightarrow> 'f \<Rightarrow> error + config" where
  "get_config env f = config_read_file env f"

definition write_config :: "'f platform \<Rightarrow> config \<Rightarrow> 'f" where
  "write_config env c = config_write env c"

definition modify_config ::
  "'f platform \<Rightarrow> 'f \<Rightarrow> (config \<Rightarrow> error + config) \<Rightarrow> (error + unit) \<times> 'f" where
  "modify_config env f blk =
     (case get_config env f of
        Inl e \<Rightarrow> (Inl e, f)
      | Inr c \<Rightarrow>
          (case blk c of
             Inl e \<Rightarrow> (Inl e, f)
           | Inr c1 \<Rightarrow> (Inr (), write_config env c1)))"

text \<open>
  \<^verbatim>\<open>create_sandbox\<close> and \<^verbatim>\<open>destroy_sandbox\<close>: the transaction, then \<^verbatim>\<open>reload_config()\<close>
  with no keyword arguments.
\<close>

definition create_sandbox ::
  "'f platform \<Rightarrow> sandboxie \<Rightarrow> 'f \<Rightarrow> string \<Rightarrow> (string \<times> string) list \<Rightarrow> (error + unit) \<times> 'f" where
  "create_sandbox env self f b options =
     (case modify_config env f (\<lambda>c. setitem c b options) of
        (Inl e, f1) \<Rightarrow> (Inl e, f1)
      | (Inr u, f1) \<Rightarrow>
          (case reload_config env self start_defaults of
             Inl e \<Rightarrow> (Inl e, f1)
           | Inr out \<Rightarrow> (Inr (), f1)))"

definition destroy_sandbox ::
  "'f platform \<Rightarrow> sandboxie \<Rightarrow> 'f \<Rightarrow> string \<Rightarrow> (error + unit) \<times> 'f" where
  "destroy_sandbox env self f b =
     (case modify_config env f (\<lambda>c. Inr (remove_section c b)) of
        (Inl e, f1) \<Rightarrow> (Inl e, f1)
      | (Inr u, f1) \<Rightarrow>
          (case reload_config env self start_defaults of
             Inl e \<Rightarrow> (Inl e, f1)
           | Inr out \<Rightarrow> (Inr (), f1)))"

section \<open>The text of the configuration file\<close>

text \<open>
  \<^verbatim>\<open>config.write\<close> and \<^verbatim>\<open>config.read_file\<close> on the text of the file, for a parser made by
  \<^verbatim>\<open>ConfigParser(strict=False)\<close>: delimiters \<^verbatim>\<open>=\<close> and \<^verbatim>\<open>:\<close>, full-line comments starting
  with \<^verbatim>\<open>#\<close> or \<^verbatim>\<open>;\<close>, no inline comments, empty lines allowed in values, every option
  with a value. The file is opened in text mode: on writing each line feed becomes the
  line separator of the platform, on reading \<^verbatim>\<open>\r\n\<close>, \<^verbatim>\<open>\r\<close> and \<^verbatim>\<open>\n\<close> all end a line.

  \<open>is_uspace\<close> is \<^verbatim>\<open>str.isspace\<close> on code points below 256, which is also the class \<^verbatim>\<open>\s\<close>
  of the regular expressions; \<open>strip\<close>, \<open>lstrip\<close> and \<open>rstrip\<close> are the string methods.
\<close>

definition is_uspace :: "char \<Rightarrow> bool" where
  "is_uspace c =
     ((9 \<le> (of_char c :: nat) \<and> (of_char c :: nat) \<le> 13) \<or>
      (28 \<le> (of_char c :: nat) \<and> (of_char c :: nat) \<le> 32) \<or>
      (of_char c :: nat) = 133 \<or> (of_char c :: nat) = 160)"

definition lstrip :: "string \<Rightarrow> string" where
  "lstrip s = dropWhile is_uspace s"

definition rstrip :: "string \<Rightarrow> string" where
  "rstrip s = rev (dropWhile is_uspace (rev s))"

definition strip :: "string \<Rightarrow> string" where
  "strip s = lstrip (rstrip s)"



text \<open>
  The state of \<^verbatim>\<open>RawConfigParser._read\<close>: the two dictionaries, whose values are lists of
  lines until they are joined, the dictionary \<^verbatim>\<open>cursect\<close> being filled, the last option
  name, the indentation of the last header or option line, and whether a parsing error
  is pending (\<^verbatim>\<open>e\<close>).
\<close>

datatype cursect = NoSection | DefaultSection | NamedSection string

record parser =
  p_defaults :: "(string \<times> string list) list"
  p_sections :: "(string \<times> (string \<times> string list) list) list"
  cursect :: cursect
  optname :: "string option"
  indent_level :: nat
  parsing_errors :: bool

text \<open>An update of the dictionary that \<^verbatim>\<open>cursect\<close> refers to.\<close>

definition cur_update ::
  "((string \<times> string list) list \<Rightarrow> (string \<times> string list) list) \<Rightarrow> parser \<Rightarrow> parser" where
  "cur_update f st =
     (case cursect st of
        NoSection \<Rightarrow> st
      | DefaultSection \<Rightarrow> st\<lparr>p_defaults := f (p_defaults st)\<rparr>
      | NamedSection n \<Rightarrow> st\<lparr>p_sections := AList.map_entry n f (p_sections st)\<rparr>)"


















section \<open>Names, options and values that the text keeps\<close>

text \<open>
  The conditions under which the written text reads back as what was written.
  \<open>split_lf\<close> cuts a value at its line feeds. A value must hold no carriage return, end
  without whitespace, have no line with whitespace at either end and, after its first
  line, no line starting with \<^verbatim>\<open>#\<close> or \<^verbatim>\<open>;\<close>. An option name as stored must be non-empty
  and lower-case, without whitespace at either end, without delimiter or line break, and
  not start a comment; the line made of the name, \<^verbatim>\<open> = \<close> and the first line of the value
  must not be a section header. A section name must be non-empty and hold no line break.
\<close>

fun split_lf :: "string \<Rightarrow> string list" where
  "split_lf [] = [[]]"
| "split_lf (c # s) =
     (if c = CHR 0x0A then [] # split_lf s
      else (case split_lf s of [] \<Rightarrow> [[c]] | l # ls \<Rightarrow> (c # l) # ls))"









section \<open>Auxiliary notions for the proofs about the text\<close>


definition unlines :: "string list \<Rightarrow> string" where
  "unlines ls = concat (map (\<lambda>l. l @ [CHR 0x0A]) ls)"











section \<open>Test fixtures\<close>

text \<open>
  The fixtures of \<^verbatim>\<open>unit_tests.py\<close>: a launcher replaced by a mock that returns a fixed
  output, and a configuration file whose content is the parsed configuration itself.
\<close>

definition mock_platform :: "string \<Rightarrow> config platform" where
  "mock_platform out =
     \<lparr>path_join = (\<lambda>a b. a @ ''/'' @ b), shell_output = (\<lambda>argv. Inr out),
      config_read_file = Inr, config_write = (\<lambda>c. c)\<rparr>"

definition test_sandboxie :: sandboxie where
  "test_sandboxie = \<lparr>install_dir = ''C:/Sandboxie'', defaultbox = ''DefaultBox''\<rparr>"

definition all_control_flags :: "start_kwargs \<Rightarrow> start_kwargs" where
  "all_control_flags kw =
     kw\<lparr>reload := True, terminate := True, terminate_all := True, listpids := True\<rparr>"

text \<open>The launcher output of \<^verbatim>\<open>test_running_processes_returns_pidlist_generator\<close>.\<close>

definition pidlist_output :: string where
  "pidlist_output =
     ''13'' @ [CHR 0x0D, CHR 0x0A] @ ''2705'' @ [CHR 0x0D, CHR 0x0A] @ ''1336''
       @ [CHR 0x0D, CHR 0x0A] @ ''2914''"

definition malformed_output :: string where
  "malformed_output = ''13'' @ [CHR 0x0D, CHR 0x0A] @ ''ABC''"

text \<open>The configuration of \<^verbatim>\<open>test_destroy_sandbox\<close>, and the empty file of \<^verbatim>\<open>setUp\<close>.\<close>

definition two_sandboxes :: config where
  "two_sandboxes =
     \<lparr>defaults_dict = [],
      sections = [(''sandbox1'', [(''enabled'', ''yes'')]), (''sandbox2'', [(''enabled'', ''no'')])]\<rparr>"






section \<open>Properties of the launcher command line\<close>

text \<open>
  Claim C7. \<^verbatim>\<open>start('test.exe')\<close> with every other parameter at its default hands the
  launcher exactly the executable path, \<^verbatim>\<open>/box:<defaultbox>\<close>, \<^verbatim>\<open>/silent\<close>, \<^verbatim>\<open>/nosbiectrl\<close>
  and the command, in this order.
\<close>

theorem start_default_flags:
  "start_command_line env self (start_defaults\<lparr>command := Some ''test.exe''\<rparr>) =
     [path_join env (install_dir self) ''Start.exe'', ''/box:'' @ defaultbox self,
      ''/silent'', ''/nosbiectrl'', ''test.exe'']"
  by (simp add: start_command_line_def start_defaults_def)

text \<open>
  Claim C1, as stated, fails: the command is the last token of the list, copied as the
  caller gave it, so \<^verbatim>\<open>start('/reload')\<close> builds a list that contains \<^verbatim>\<open>/reload\<close>.
\<close>

theorem start_command_token_counterexample:
  "command (start_defaults\<lparr>command := Some ''/reload''\<rparr>) \<noteq> None \<and>
   ''/reload'' \<in> set (start_command_line (mock_platform []) test_sandboxie
                      (start_defaults\<lparr>command := Some ''/reload''\<rparr>))"
  by (simp add: start_command_line_def start_defaults_def)

text \<open>
  Claim C1, amended. When a command is present, whatever the four control flags are, none
  of the tokens that \<^verbatim>\<open>start\<close> places between the executable path and the final command
  token is \<^verbatim>\<open>/reload\<close>, \<^verbatim>\<open>/terminate\<close>, \<^verbatim>\<open>/terminate_all\<close> or \<^verbatim>\<open>/listpids\<close>; the first token
  is the executable path and the last token is the caller's command, unchanged.
\<close>

theorem start_suppresses_control_flags:
  "command kw = Some c \<Longrightarrow>
     set (butlast (tl (start_command_line env self kw))) \<inter> control_tokens = {} \<and>
     hd (start_command_line env self kw) = path_join env (install_dir self) ''Start.exe'' \<and>
     last (start_command_line env self kw) = c"
  by (simp add: start_command_line_def control_tokens_def butlast_append)

theorem start_suppresses_control_flags_witness:
  "command (all_control_flags (start_defaults\<lparr>command := Some ''test.exe''\<rparr>)) = Some ''test.exe'' \<and>
   set (butlast (tl (start_command_line (mock_platform []) test_sandboxie
         (all_control_flags (start_defaults\<lparr>command := Some ''test.exe''\<rparr>))))) \<inter> control_tokens = {} \<and>
   last (start_command_line (mock_platform []) test_sandboxie
         (all_control_flags (start_defaults\<lparr>command := Some ''test.exe''\<rparr>))) = ''test.exe''"
  using start_suppresses_control_flags
    [of "all_control_flags (start_defaults\<lparr>command := Some ''test.exe''\<rparr>)"
      "''test.exe''" "mock_platform []" test_sandboxie]
  by (simp add: all_control_flags_def start_defaults_def)

text \<open>
  Claim C2. With the command absent and \<^verbatim>\<open>listpids\<close> set, \<^verbatim>\<open>/listpids\<close> is among the emitted
  flags and the list ends with the synthesized, non-empty command \<^verbatim>\<open>| more\<close>. When
  \<^verbatim>\<open>listpids\<close> is not set no command is made up: the list ends with the caller's command,
  or with the empty string when the command is absent.
\<close>

theorem start_listpids_synthesizes_command:
  "(command kw = None \<and> listpids kw \<longrightarrow>
      ''/listpids'' \<in> set (butlast (tl (start_command_line env self kw))) \<and>
      last (start_command_line env self kw) = ''| more'' \<and>
      last (start_command_line env self kw) \<noteq> []) \<and>
   (\<not> listpids kw \<longrightarrow>
      last (start_command_line env self kw) = (case command kw of None \<Rightarrow> [] | Some c \<Rightarrow> c))"
  by (simp add: start_command_line_def butlast_append split: option.splits)

theorem start_listpids_synthesizes_command_witness:
  "command (start_defaults\<lparr>listpids := True\<rparr>) = None \<and> listpids (start_defaults\<lparr>listpids := True\<rparr>) \<and>
   ''/listpids'' \<in> set (butlast (tl (start_command_line (mock_platform []) test_sandboxie
                                       (start_defaults\<lparr>listpids := True\<rparr>)))) \<and>
   last (start_command_line (mock_platform []) test_sandboxie (start_defaults\<lparr>listpids := True\<rparr>))
     = ''| more'' \<and>
   \<not> listpids (start_defaults\<lparr>reload := True\<rparr>) \<and>
   last (start_command_line (mock_platform []) test_sandboxie (start_defaults\<lparr>reload := True\<rparr>)) = []"
  using start_listpids_synthesizes_command
          [of "start_defaults\<lparr>listpids := True\<rparr>" "mock_platform []" test_sandboxie]
        start_listpids_synthesizes_command
          [of "start_defaults\<lparr>reload := True\<rparr>" "mock_platform []" test_sandboxie]
  by (simp add: start_defaults_def)

text \<open>
  Claim C10. The gate is \<^verbatim>\<open>command is None\<close>: with the empty string as command the
  list is the one built for any other command, up to its last token; no control token is
  emitted and the list ends with the empty string.
\<close>

theorem start_empty_command:
  "start_command_line env self (kw\<lparr>command := Some []\<rparr>) =
     butlast (start_command_line env self (kw\<lparr>command := Some c\<rparr>)) @ [[]] \<and>
   set (butlast (tl (start_command_line env self (kw\<lparr>command := Some []\<rparr>)))) \<inter> control_tokens = {} \<and>
   last (start_command_line env self (kw\<lparr>command := Some []\<rparr>)) = []"
  by (simp add: start_command_line_def control_tokens_def butlast_append)

text \<open>
  Claim C5. \<^verbatim>\<open>delete_contents\<close> gives the launcher the same list for every \<open>box\<close> argument:
  the list built for the command \<^verbatim>\<open>delete_sandbox_silent\<close> with \<^verbatim>\<open>box=None\<close>, whose box flag
  names the default sandbox.
\<close>

theorem delete_contents_ignores_box:
  "delete_contents env self b kw = delete_contents env self None kw \<and>
   delete_contents env self b kw =
     shell_output env (start_command_line env self
        (kw\<lparr>command := Some ''delete_sandbox_silent'', box := None\<rparr>)) \<and>
   hd (tl (start_command_line env self (kw\<lparr>command := Some ''delete_sandbox_silent'', box := None\<rparr>)))
     = ''/box:'' @ defaultbox self"
  by (simp add: delete_contents_def start_def start_command_line_def)

section \<open>Properties of the process identifier parser\<close>

lemma py_tuple_Nil: "py_tuple [] = Inr []"
  by simp

lemma py_tuple_Cons:
  "py_tuple (t # ts) =
     (case py_int t of
        None \<Rightarrow> Inl ValueError
      | Some n \<Rightarrow> (case py_tuple ts of Inl e \<Rightarrow> Inl e | Inr ns \<Rightarrow> Inr (n # ns)))"
  by (simp split: option.splits)

declare py_tuple.simps [simp del]

lemma py_tuple_error: "py_tuple g = Inl e \<Longrightarrow> e = ValueError"
  by (induction g arbitrary: e) (auto simp: py_tuple_Nil py_tuple_Cons split: option.splits sum.splits)

lemma py_tuple_fails_iff: "(\<exists>e. py_tuple g = Inl e) \<longleftrightarrow> (\<exists>t \<in> set g. py_int t = None)"
  by (induction g) (auto simp: py_tuple_Nil py_tuple_Cons split: option.splits sum.splits)

lemma py_tuple_bad_token: "t \<in> set g \<Longrightarrow> py_int t = None \<Longrightarrow> py_tuple g = Inl ValueError"
  using py_tuple_fails_iff [of g] py_tuple_error [of g] by blast

lemma py_tuple_values:
  "py_tuple g = Inr ns \<Longrightarrow> map py_int g = map Some ns"
  by (induction g arbitrary: ns) (auto simp: py_tuple_Nil py_tuple_Cons split: option.splits sum.splits)

lemma digits_value_nonneg: "digits_value acc prev s = Some n \<Longrightarrow> 0 \<le> acc \<Longrightarrow> 0 \<le> n"
  by (induction acc prev s rule: digits_value.induct)
     (auto simp: digit_val_def is_digit_def split: if_splits)

lemma digits_value_chars:
  "digits_value acc prev s = Some n \<Longrightarrow> c \<in> set s \<Longrightarrow> is_digit c \<or> c = CHR ''_''"
  by (induction acc prev s rule: digits_value.induct) (auto split: if_splits)

lemma py_int_nonneg: "py_int t = Some n \<Longrightarrow> CHR ''-'' \<notin> set t \<Longrightarrow> 0 \<le> n"
proof (cases t)
  case Nil
  assume "py_int t = Some n"
  with Nil show ?thesis by (simp add: py_int_def)
next
  case (Cons c r)
  assume p: "py_int t = Some n" and m: "CHR ''-'' \<notin> set t"
  from m Cons have "c \<noteq> CHR ''-''" by auto
  with p Cons have "digits_value 0 False r = Some n \<or> digits_value 0 False t = Some n"
    by (simp add: py_int_def del: digits_value.simps split: if_splits)
  then show ?thesis
    using digits_value_nonneg [of 0 False r n] digits_value_nonneg [of 0 False t n] by auto
qed

lemma py_int_chars:
  "py_int t = Some n \<Longrightarrow> c \<in> set t \<Longrightarrow> is_digit c \<or> c \<in> {CHR ''_'', CHR ''+'', CHR ''-''}"
  by (cases t) (auto simp: py_int_def dest: digits_value_chars split: if_splits)

text \<open>
  Claim C4. When the launcher prints \<^verbatim>\<open>13\r\n2705\r\n1336\r\n2914\<close>, consuming the result of
  \<^verbatim>\<open>running_processes\<close> gives 13, 2705, 1336, 2914 in this order. When some token of the
  output is not accepted by \<^verbatim>\<open>int\<close>, in particular when it holds a character that is
  neither a digit, a sign nor an underscore, consuming the result raises \<^verbatim>\<open>ValueError\<close>:
  no token is skipped.
\<close>

theorem running_processes_parses:
  "(start env self (kw\<lparr>listpids := True, box := b, wait := True\<rparr>) = Inr pidlist_output \<longrightarrow>
      consumed (running_processes env self b kw) = Inr [13, 2705, 1336, 2914]) \<and>
   (start env self (kw\<lparr>listpids := True, box := b, wait := True\<rparr>) = Inr out \<and>
    (\<exists>t \<in> set (split out). py_int t = None) \<longrightarrow>
      consumed (running_processes env self b kw) = Inl ValueError) \<and>
   (start env self (kw\<lparr>listpids := True, box := b, wait := True\<rparr>) = Inr out \<and>
    (\<exists>t \<in> set (split out). \<exists>c \<in> set t.
        \<not> is_digit c \<and> c \<notin> {CHR ''_'', CHR ''+'', CHR ''-''}) \<longrightarrow>
      consumed (running_processes env self b kw) = Inl ValueError)"
proof (intro conjI impI)
  assume "start env self (kw\<lparr>listpids := True, box := b, wait := True\<rparr>) = Inr pidlist_output"
  then have "consumed (running_processes env self b kw) = py_tuple (split pidlist_output)"
    by (simp add: consumed_def running_processes_def)
  also have "\<dots> = Inr [13, 2705, 1336, 2914]"
    by (simp add: pidlist_output_def split_def is_space_def py_int_def is_digit_def digit_val_def
        py_tuple_Nil py_tuple_Cons)
  finally show "consumed (running_processes env self b kw) = Inr [13, 2705, 1336, 2914]" .
next
  assume a: "start env self (kw\<lparr>listpids := True, box := b, wait := True\<rparr>) = Inr out \<and>
    (\<exists>t \<in> set (split out). py_int t = None)"
  then have "consumed (running_processes env self b kw) = py_tuple (split out)"
    by (simp add: consumed_def running_processes_def)
  with a show "consumed (running_processes env self b kw) = Inl ValueError"
    by (auto dest: py_tuple_bad_token)
next
  assume a: "start env self (kw\<lparr>listpids := True, box := b, wait := True\<rparr>) = Inr out \<and>
    (\<exists>t \<in> set (split out). \<exists>c \<in> set t.
        \<not> is_digit c \<and> c \<notin> {CHR ''_'', CHR ''+'', CHR ''-''})"
  then obtain t c where t: "t \<in> set (split out)" and c: "c \<in> set t"
    and nd: "\<not> is_digit c" and ns: "c \<notin> {CHR ''_'', CHR ''+'', CHR ''-''}"
    by blast
  have "py_int t = None"
  proof (cases "py_int t")
    case None
    then show ?thesis .
  next
    case (Some n)
    from py_int_chars [OF Some c] nd ns show ?thesis by simp
  qed
  with t have "py_tuple (split out) = Inl ValueError"
    by (rule py_tuple_bad_token)
  with a show "consumed (running_processes env self b kw) = Inl ValueError"
    by (simp add: consumed_def running_processes_def)
qed

theorem running_processes_parses_witness:
  "start (mock_platform pidlist_output) test_sandboxie
      (start_defaults\<lparr>listpids := True, box := None, wait := True\<rparr>) = Inr pidlist_output \<and>
   consumed (running_processes (mock_platform pidlist_output) test_sandboxie None start_defaults)
     = Inr [13, 2705, 1336, 2914] \<and>
   start (mock_platform malformed_output) test_sandboxie
      (start_defaults\<lparr>listpids := True, box := None, wait := True\<rparr>) = Inr malformed_output \<and>
   (\<exists>t \<in> set (split malformed_output). py_int t = None) \<and>
   (\<exists>t \<in> set (split malformed_output). \<exists>c \<in> set t.
        \<not> is_digit c \<and> c \<notin> {CHR ''_'', CHR ''+'', CHR ''-''}) \<and>
   consumed (running_processes (mock_platform malformed_output) test_sandboxie None start_defaults)
     = Inl ValueError"
proof -
  have s1: "start (mock_platform pidlist_output) test_sandboxie
      (start_defaults\<lparr>listpids := True, box := None, wait := True\<rparr>) = Inr pidlist_output"
    by (simp add: start_def mock_platform_def)
  have s2: "start (mock_platform malformed_output) test_sandboxie
      (start_defaults\<lparr>listpids := True, box := None, wait := True\<rparr>) = Inr malformed_output"
    by (simp add: start_def mock_platform_def)
  have s3: "\<exists>t \<in> set (split malformed_output). py_int t = None"
    by (simp add: malformed_output_def split_def is_space_def py_int_def is_digit_def)
  have s4: "\<exists>t \<in> set (split malformed_output). \<exists>c \<in> set t.
        \<not> is_digit c \<and> c \<notin> {CHR ''_'', CHR ''+'', CHR ''-''}"
    by (simp add: malformed_output_def split_def is_space_def is_digit_def)
  show ?thesis
    using s1 s2 s3 s4
      running_processes_parses [where env = "mock_platform pidlist_output"
         and self = test_sandboxie and kw = start_defaults and b = None
         and out = malformed_output]
      running_processes_parses [where env = "mock_platform malformed_output"
         and self = test_sandboxie and kw = start_defaults and b = None
         and out = malformed_output]
    by blast
qed

text \<open>
  Claim C6, as stated, fails: \<^verbatim>\<open>int\<close> accepts \<^verbatim>\<open>0\<close> and signed tokens, so the launcher output
  \<^verbatim>\<open>0 -7\<close> is parsed to the values 0 and -7, neither of them positive.
\<close>

theorem running_processes_not_positive_counterexample:
  "consumed (running_processes (mock_platform ''0 -7'') test_sandboxie None start_defaults)
     = Inr [0, - 7]"
  by (simp add: consumed_def running_processes_def start_def mock_platform_def split_def
      is_space_def py_int_def is_digit_def digit_val_def py_tuple_Nil py_tuple_Cons)

text \<open>
  Claim C6, amended. Every process identifier produced is the integer that \<^verbatim>\<open>int\<close> reads
  from its token, one value per whitespace-separated token and in the order of the
  output; the value of a token without a minus sign is non-negative (zero included).
\<close>

theorem running_processes_values:
  "start env self (kw\<lparr>listpids := True, box := b, wait := True\<rparr>) = Inr out \<Longrightarrow>
   consumed (running_processes env self b kw) = Inr pids \<Longrightarrow>
     map py_int (split out) = map Some pids \<and>
     (\<forall>i < length pids. CHR ''-'' \<notin> set (split out ! i) \<longrightarrow> 0 \<le> pids ! i)"
proof -
  assume s: "start env self (kw\<lparr>listpids := True, box := b, wait := True\<rparr>) = Inr out"
    and c: "consumed (running_processes env self b kw) = Inr pids"
  from s c have t: "py_tuple (split out) = Inr pids"
    by (simp add: consumed_def running_processes_def)
  then have m: "map py_int (split out) = map Some pids"
    by (rule py_tuple_values)
  then have len: "length (split out) = length pids"
    by (metis length_map)
  have "0 \<le> pids ! i" if i: "i < length pids" and neg: "CHR ''-'' \<notin> set (split out ! i)" for i
  proof -
    from m i len have "py_int (split out ! i) = Some (pids ! i)"
      by (metis nth_map)
    then show ?thesis using neg by (rule py_int_nonneg)
  qed
  with m show ?thesis by blast
qed

theorem running_processes_values_witness:
  "start (mock_platform ''13 0'') test_sandboxie
      (start_defaults\<lparr>listpids := True, box := None, wait := True\<rparr>) = Inr ''13 0'' \<and>
   consumed (running_processes (mock_platform ''13 0'') test_sandboxie None start_defaults)
     = Inr [13, 0] \<and>
   map py_int (split ''13 0'') = map Some [13, 0] \<and>
   CHR ''-'' \<notin> set (split ''13 0'' ! 1) \<and> 0 \<le> [13, 0 :: int] ! 1"
proof -
  have s: "start (mock_platform ''13 0'') test_sandboxie
      (start_defaults\<lparr>listpids := True, box := None, wait := True\<rparr>) = Inr ''13 0''"
    by (simp add: start_def mock_platform_def)
  have c: "consumed (running_processes (mock_platform ''13 0'') test_sandboxie None start_defaults)
     = Inr [13, 0]"
    by (simp add: consumed_def running_processes_def start_def mock_platform_def split_def
      is_space_def py_int_def is_digit_def digit_val_def py_tuple_Nil py_tuple_Cons)
  have n: "CHR ''-'' \<notin> set (split ''13 0'' ! 1)"
    by (simp add: split_def is_space_def)
  have l: "(1::nat) < length [13, 0 :: int]" by simp
  from running_processes_values [OF s c] n l s c show ?thesis by blast
qed

section \<open>Properties of the configuration transaction\<close>

lemma lower_char_idem: "lower_char (lower_char c) = lower_char c"
  by (simp add: lower_char_def is_upper_def)

lemma optionxform_idem: "optionxform (optionxform k) = optionxform k"
  by (simp add: optionxform_def lower_char_idem)

lemma has_section_iff: "has_section c name \<longleftrightarrow> map_of (sections c) name \<noteq> None"
  by (simp add: has_section_def map_of_eq_None_iff)

lemma before_set_cases: "before_set v = Inl ValueError \<or> before_set v = Inr v"
  by (simp add: before_set_def)



lemma set_option_named:
  assumes "name \<noteq> []" "name \<noteq> default_section" "map_of (sections c) name = Some d"
    and "v \<noteq> [] \<longrightarrow> before_set v = Inr v"
  shows "set_option c name (optionxform k) v =
    Inr (c\<lparr>sections := AList.update name (AList.update (optionxform k) v d) (sections c)\<rparr>)"
  using assms by (simp add: set_option_def optionxform_idem)


lemma set_items_invalid:
  "\<exists>(k, v) \<in> set kvs. v \<noteq> [] \<and> before_set v \<noteq> Inr v \<Longrightarrow>
   name \<noteq> [] \<Longrightarrow> name \<noteq> default_section \<Longrightarrow> map_of (sections c) name \<noteq> None \<Longrightarrow>
   set_items c name kvs = Inl ValueError"
proof (induction kvs arbitrary: c)
  case Nil
  then show ?case by simp
next
  case (Cons kv kvs)
  obtain k v where kv: "kv = (k, v)" by (cases kv)
  from Cons.prems(4) obtain d where d: "map_of (sections c) name = Some d" by auto
  show ?case
  proof (cases "v \<noteq> [] \<and> before_set v \<noteq> Inr v")
    case True
    with before_set_cases [of v] have "before_set v = Inl ValueError" by auto
    with True show ?thesis by (simp add: kv set_option_def)
  next
    case False
    then have ok: "v \<noteq> [] \<longrightarrow> before_set v = Inr v" by auto
    let ?c1 = "c\<lparr>sections := AList.update name (AList.update (optionxform k) v d) (sections c)\<rparr>"
    have step: "set_option c name (optionxform k) v = Inr ?c1"
      by (rule set_option_named [OF Cons.prems(2,3) d ok])
    from False Cons.prems(1) kv
    have bad: "\<exists>(k, v) \<in> set kvs. v \<noteq> [] \<and> before_set v \<noteq> Inr v" by auto
    have "map_of (sections ?c1) name \<noteq> None" by (simp add: AList.update_conv')
    then have "set_items ?c1 name kvs = Inl ValueError"
      by (rule Cons.IH [OF bad Cons.prems(2,3)])
    with step show ?thesis by (simp add: kv)
  qed
qed

text \<open>
  The first steps of the assignment: the named section is cleared or appended, every other
  section and the \<^verbatim>\<open>DEFAULT\<close> dictionary stay as they were.
\<close>

lemma read_dict_prepared:
  assumes "name \<noteq> []" "name \<noteq> default_section"
  shows "\<exists>c0. (case add_section (if has_section c name
                  then c\<lparr>sections := AList.update name [] (sections c)\<rparr> else c) name
               of Inl e \<Rightarrow> (if has_section c name
                  then c\<lparr>sections := AList.update name [] (sections c)\<rparr> else c) | Inr c1 \<Rightarrow> c1) = c0 \<and>
          map_of (sections c0) name = Some [] \<and>
          (\<forall>p. p \<noteq> name \<longrightarrow> map_of (sections c0) p = map_of (sections c) p) \<and>
          defaults_dict c0 = defaults_dict c"
proof (cases "has_section c name")
  case True
  then have "has_section (c\<lparr>sections := AList.update name [] (sections c)\<rparr>) name"
    by (simp add: has_section_iff AList.update_conv')
  with True assms show ?thesis
    by (simp add: add_section_def AList.update_conv')
next
  case False
  then have "map_of (sections c) name = None" by (simp add: has_section_iff)
  with False assms show ?thesis
    by (simp add: add_section_def map_add_def split: option.splits)
qed

lemma setitem_invalid:
  assumes "name \<noteq> []" "name \<noteq> default_section"
    and "\<exists>(k, v) \<in> set opts. v \<noteq> [] \<and> before_set v \<noteq> Inr v"
  shows "setitem c name opts = Inl ValueError"
proof -
  from read_dict_prepared [OF assms(1,2), of c] obtain c0 where
    c0: "(case add_section (if has_section c name
                  then c\<lparr>sections := AList.update name [] (sections c)\<rparr> else c) name
               of Inl e \<Rightarrow> (if has_section c name
                  then c\<lparr>sections := AList.update name [] (sections c)\<rparr> else c) | Inr c1 \<Rightarrow> c1) = c0"
    and m: "map_of (sections c0) name = Some []"
    by blast
  from assms(2) c0 have "setitem c name opts = set_items c0 name opts"
    by (simp add: setitem_def read_dict_def)
  also have "\<dots> = Inl ValueError"
    using m by (intro set_items_invalid [OF assms(3,1,2)]) simp
  finally show ?thesis .
qed

lemma create_sandbox_rejects:
  assumes "get_config env f = Inr c" and "name \<noteq> []" and "name \<noteq> default_section"
    and "\<exists>(k, v) \<in> set opts. v \<noteq> [] \<and> before_set v \<noteq> Inr v"
  shows "create_sandbox env self f name opts = (Inl ValueError, f)"
  using assms(1) setitem_invalid [OF assms(2,3,4), of c]
  by (simp add: create_sandbox_def modify_config_def)

text \<open>
  Claim C3. In \<^verbatim>\<open>_modify_config\<close>, when the caller's block raises, the error leaves the
  transaction and the file keeps its content; when the block completes, the configuration
  as the block left it is written to the file.
\<close>

theorem modify_config_transaction:
  "get_config env f = Inr c \<Longrightarrow>
     (blk c = Inl e \<longrightarrow> modify_config env f blk = (Inl e, f)) \<and>
     (blk c = Inr c1 \<longrightarrow> modify_config env f blk = (Inr (), write_config env c1))"
  by (simp add: modify_config_def)

theorem modify_config_transaction_witness:
  "get_config (mock_platform []) two_sandboxes = Inr two_sandboxes \<and>
   modify_config (mock_platform []) two_sandboxes (\<lambda>c. Inl (BlockError ''boom''))
     = (Inl (BlockError ''boom''), two_sandboxes) \<and>
   modify_config (mock_platform []) two_sandboxes (\<lambda>c. Inr (remove_section c ''sandbox1''))
     = (Inr (), write_config (mock_platform []) (remove_section two_sandboxes ''sandbox1''))"
proof -
  have g: "get_config (mock_platform []) two_sandboxes = Inr two_sandboxes"
    by (simp add: get_config_def mock_platform_def)
  show ?thesis
    using g
      modify_config_transaction [OF g, of "\<lambda>c. Inl (BlockError ''boom'')" "BlockError ''boom''" two_sandboxes]
      modify_config_transaction [OF g, of "\<lambda>c. Inr (remove_section c ''sandbox1'')" ValueError
         "remove_section two_sandboxes ''sandbox1''"]
    by simp
qed

text \<open>
  Claim C9. Given a configuration file that parses and a launcher whose reload call
  succeeds, \<^verbatim>\<open>destroy_sandbox(name)\<close> completes without error and writes the configuration
  without the section \<open>name\<close>: every other section is still there with its content, the
  section names are the old ones less \<open>name\<close>, and when there was no section \<open>name\<close> the
  configuration written is the one that was read.
\<close>

theorem destroy_sandbox_removes:
  assumes "get_config env f = Inr c"
    and "reload_config env self start_defaults = Inr out"
  shows "destroy_sandbox env self f name = (Inr (), write_config env (remove_section c name)) \<and>
     map_of (sections (remove_section c name)) name = None \<and>
     (\<forall>p. p \<noteq> name \<longrightarrow> map_of (sections (remove_section c name)) p = map_of (sections c) p) \<and>
     set (map fst (sections (remove_section c name))) = set (map fst (sections c)) - {name} \<and>
     defaults_dict (remove_section c name) = defaults_dict c \<and>
     (name \<notin> set (map fst (sections c)) \<longrightarrow> remove_section c name = c)"
proof -
  have d: "destroy_sandbox env self f name = (Inr (), write_config env (remove_section c name))"
    using assms by (simp add: destroy_sandbox_def modify_config_def)
  have n: "map_of (sections (remove_section c name)) name = None"
    by (simp add: remove_section_def has_section_iff AList.delete_conv')
  have o: "\<forall>p. p \<noteq> name \<longrightarrow> map_of (sections (remove_section c name)) p = map_of (sections c) p"
    by (simp add: remove_section_def)
  have k: "set (map fst (sections (remove_section c name))) = set (map fst (sections c)) - {name}"
  proof (cases "has_section c name")
    case True
    then show ?thesis by (simp add: remove_section_def AList.delete_keys)
  next
    case False
    then show ?thesis by (simp add: remove_section_def has_section_def)
  qed
  have i: "name \<notin> set (map fst (sections c)) \<longrightarrow> remove_section c name = c"
    by (simp add: remove_section_def has_section_def)
  have df: "defaults_dict (remove_section c name) = defaults_dict c"
    by (simp add: remove_section_def)
  from d n o k df i show ?thesis by blast
qed

theorem destroy_sandbox_removes_witness:
  "get_config (mock_platform []) two_sandboxes = Inr two_sandboxes \<and>
   reload_config (mock_platform []) test_sandboxie start_defaults = Inr [] \<and>
   destroy_sandbox (mock_platform []) test_sandboxie two_sandboxes ''sandbox1''
     = (Inr (), \<lparr>defaults_dict = [], sections = [(''sandbox2'', [(''enabled'', ''no'')])]\<rparr>) \<and>
   ''foo'' \<notin> set (map fst (sections two_sandboxes)) \<and>
   destroy_sandbox (mock_platform []) test_sandboxie two_sandboxes ''foo'' = (Inr (), two_sandboxes)"
proof -
  have g: "get_config (mock_platform []) two_sandboxes = Inr two_sandboxes"
    by (simp add: get_config_def mock_platform_def)
  have r: "reload_config (mock_platform []) test_sandboxie start_defaults = Inr []"
    by (simp add: reload_config_def start_def mock_platform_def)
  have w1: "write_config (mock_platform []) (remove_section two_sandboxes ''sandbox1'')
     = \<lparr>defaults_dict = [], sections = [(''sandbox2'', [(''enabled'', ''no'')])]\<rparr>"
    by (simp add: write_config_def mock_platform_def remove_section_def has_section_def two_sandboxes_def)
  have a: "''foo'' \<notin> set (map fst (sections two_sandboxes))"
    by (simp add: two_sandboxes_def)
  have w2: "write_config (mock_platform []) two_sandboxes = two_sandboxes"
    by (simp add: write_config_def mock_platform_def)
  show ?thesis
    using g r a w1 w2
      destroy_sandbox_removes [OF g r, of "''sandbox1''"]
      destroy_sandbox_removes [OF g r, of "''foo''"]
    by simp
qed

section \<open>The configuration text read back\<close>

subsection \<open>Whitespace\<close>

lemma uspace_simps [simp]:
  "is_uspace (CHR 0x0A)" "is_uspace (CHR 0x0D)" "is_uspace (CHR 0x09)" "is_uspace (CHR '' '')"
  "\<not> is_uspace (CHR ''['')" "\<not> is_uspace (CHR '']'')" "\<not> is_uspace (CHR ''='')"
  by (simp_all add: is_uspace_def)










lemma strip_Nil [simp]: "strip [] = []" "lstrip [] = []" "rstrip [] = []"
  by (simp_all add: strip_def lstrip_def rstrip_def)

subsection \<open>The text as lines\<close>

lemma unlines_append: "unlines (xs @ ys) = unlines xs @ unlines ys"
  by (simp add: unlines_def)


lemma unlines_Nil: "unlines [] = []"
  by (simp add: unlines_def)

lemma unlines_concat: "unlines (concat xss) = concat (map unlines xss)"
  by (induction xss) (simp_all add: unlines_append unlines_Nil)

lemma split_lf_not_Nil [simp]: "split_lf v \<noteq> []"
  by (induction v) (auto split: list.splits)











subsection \<open>Reading a line\<close>

lemma cur_update_fields [simp]:
  "cursect (cur_update f st) = cursect st"
  "optname (cur_update f st) = optname st"
  "indent_level (cur_update f st) = indent_level st"
  "parsing_errors (cur_update f st) = parsing_errors st"
  by (simp_all add: cur_update_def split: cursect.splits)

















subsection \<open>Reading an item and its continuation lines\<close>

lemma cur_update_commute:
  "cur_update f (st\<lparr>indent_level := i, optname := n\<rparr>) =
     (cur_update f st)\<lparr>indent_level := i, optname := n\<rparr>"
  by (simp add: cur_update_def split: cursect.splits)











subsection \<open>Reading sections\<close>











subsection \<open>Characters and stripping\<close>














subsection \<open>Header and option lines of any file\<close>












subsection \<open>The invariant of the reader\<close>










subsection \<open>Joined values\<close>













subsection \<open>The assignment keeps the configuration clean\<close>






section \<open>Creating a sandbox\<close>




end
